theory Spec2Isabelle
  imports Main
begin

section \<open>Python string and path primitives used by sidecar.py\<close>

text \<open>
  Strings are character lists. The three-character separator of the naming scheme is the
  literal \<^verbatim>\<open>'---'\<close> of the source.
\<close>

definition sep :: string where
  "sep = ''---''"

text \<open>\<^verbatim>\<open>s.startswith(p)\<close>\<close>

definition startswith :: "string \<Rightarrow> string \<Rightarrow> bool" where
  "startswith s p = (take (length p) s = p)"

text \<open>\<^verbatim>\<open>s.endswith(p)\<close>\<close>

definition endswith :: "string \<Rightarrow> string \<Rightarrow> bool" where
  "endswith s p = (length p \<le> length s \<and> drop (length s - length p) s = p)"

text \<open>\<^verbatim>\<open>sub in s\<close>: some suffix of \<open>s\<close> starts with \<open>sub\<close>.\<close>

fun contains :: "string \<Rightarrow> string \<Rightarrow> bool" where
  "contains sub [] = (sub = [])"
| "contains sub (c # cs) = (startswith (c # cs) sub \<or> contains sub cs)"

text \<open>
  \<^verbatim>\<open>s.rpartition(sep)\<close> for a non-empty separator: split at the last occurrence of the
  separator and return (head, separator, tail); without an occurrence return
  \<^verbatim>\<open>('', '', s)\<close>. Python raises ValueError for an empty separator; the source only passes
  the literals \<^verbatim>\<open>'---'\<close> and \<^verbatim>\<open>'/'\<close>.
\<close>

fun rpartition :: "string \<Rightarrow> string \<Rightarrow> string \<times> string \<times> string" where
  "rpartition sp [] = ([], [], [])"
| "rpartition sp (c # cs) =
     (if contains sp cs then (case rpartition sp cs of (h, m, t) \<Rightarrow> (c # h, m, t))
      else if startswith (c # cs) sp then ([], sp, drop (length sp) (c # cs))
      else ([], [], c # cs))"

text \<open>
  \<^verbatim>\<open>s.replace(old, "")\<close>: every non-overlapping occurrence of \<open>old\<close>, found from the
  left, is removed. For an empty \<open>old\<close> Python returns \<open>s\<close> unchanged, and so does the model.
\<close>

function remove_all :: "string \<Rightarrow> string \<Rightarrow> string" where
  "remove_all old [] = []"
| "remove_all old (c # cs) =
     (if old \<noteq> [] \<and> startswith (c # cs) old
      then remove_all old (drop (length old) (c # cs))
      else c # remove_all old cs)"
  by pat_completeness auto
termination
  by (relation "measure (\<lambda>(old, s). length s)") (auto simp: neq_Nil_conv)

text \<open>\<^verbatim>\<open>head.rstrip('/')\<close>\<close>

definition rstrip_slash :: "string \<Rightarrow> string" where
  "rstrip_slash s = rev (dropWhile (\<lambda>c. c = CHR ''/'') (rev s))"

text \<open>
  \<^verbatim>\<open>os.path.split(p)\<close> (posixpath): cut after the last slash; trailing slashes of the head
  are stripped unless the head consists of slashes only.
\<close>

definition os_path_split :: "string \<Rightarrow> string \<times> string" where
  "os_path_split p =
     (if contains ''/'' p
      then (case rpartition ''/'' p of (h, m, t) \<Rightarrow>
              (let head = h @ m
               in (if head \<noteq> [] \<and> \<not> list_all (\<lambda>c. c = CHR ''/'') head
                   then rstrip_slash head else head, t)))
      else ([], p))"

text \<open>\<^verbatim>\<open>os.path.basename(p)\<close> (posixpath): what follows the last slash.\<close>

definition os_path_basename :: "string \<Rightarrow> string" where
  "os_path_basename p =
     (if contains ''/'' p then (case rpartition ''/'' p of (h, m, t) \<Rightarrow> t) else p)"

text \<open>\<^verbatim>\<open>os.path.join(a, b)\<close> (posixpath) for two components.\<close>

definition os_path_join :: "string \<Rightarrow> string \<Rightarrow> string" where
  "os_path_join a b =
     (if startswith b ''/'' then b
      else if a = [] \<or> endswith a ''/'' then a @ b
      else a @ ''/'' @ b)"

section \<open>Errors and the outside world\<close>

text \<open>Every exception the modelled code can raise is a value.\<close>

datatype error =
    OSError
  | NameError string
  | TypeError
  | AttributeError string
  | UnboundLocalError string
  | ZeroDivisionError

text \<open>
  A metadata record is a Python dict with string keys, kept as an association list, so
  \<open>[]\<close> is the empty dict \<^verbatim>\<open>{}\<close>.
\<close>

type_synonym 'v metadata = "(string \<times> 'v) list"

text \<open>
  What the code reads and writes outside itself:
  \<^item> \<open>listdir\<close>: the result of \<^verbatim>\<open>os.listdir(d)\<close>, \<open>None\<close> where it raises;
  \<^item> \<open>disk\<close>: what the codec decodes at a path, \<open>None\<close> where it reports absence;
  \<^item> \<open>stored\<close>: the log of \<^verbatim>\<open>universal_store\<close> calls, oldest first;
  \<^item> \<open>stdout\<close>: the progress lines, as (position, total, file name);
  \<^item> \<open>stderr\<close>: the lines written to \<^verbatim>\<open>sys.stderr\<close>.
\<close>

record 'v world =
  listdir :: "string \<Rightarrow> string list option"
  disk :: "string \<Rightarrow> 'v metadata option"
  stored :: "(string \<times> 'v metadata) list"
  stdout :: "(nat \<times> nat \<times> string) list"
  stderr :: "string list"

definition os_listdir :: "'v world \<Rightarrow> string \<Rightarrow> error + string list" where
  "os_listdir w d = (case listdir w d of None \<Rightarrow> Inl OSError | Some entries \<Rightarrow> Inr entries)"

text \<open>\<^verbatim>\<open>os.path.isdir(d)\<close>: the directories are the paths that can be listed.\<close>

definition os_path_isdir :: "'v world \<Rightarrow> string \<Rightarrow> bool" where
  "os_path_isdir w d = (listdir w d \<noteq> None)"

text \<open>
  Modelled from the spec: \<^verbatim>\<open>universal_load\<close> of the module \<^verbatim>\<open>config\<close>, which is not
  part of the source at hand. The codec contract reads
  \<^verbatim>\<open>load(path) -> mapping | empty-result-on-missing-or-unreadable\<close>.
\<close>

definition universal_load :: "'v world \<Rightarrow> string \<Rightarrow> 'v metadata option" where
  "universal_load w path = disk w path"

text \<open>
  Modelled from the spec: \<^verbatim>\<open>universal_store\<close> of the module \<^verbatim>\<open>config\<close>, which is not
  part of the source at hand. The codec contract reads
  \<^verbatim>\<open>store(path, mapping) -> none, creates or overwrites file\<close>.
\<close>

definition universal_store :: "string \<Rightarrow> 'v metadata \<Rightarrow> 'v world \<Rightarrow> 'v world" where
  "universal_store path m w = w\<lparr>disk := (disk w)(path \<mapsto> m), stored := stored w @ [(path, m)]\<rparr>"

text \<open>
  A Python \<^verbatim>\<open>set\<close> is kept as a list without repetitions. Python leaves the iteration
  order of a set open; the model iterates in the order of first insertion, and the
  theorems below speak of membership and of \<open>distinct\<close>, not of positions.
\<close>

definition set_add :: "'a \<Rightarrow> 'a list \<Rightarrow> 'a list" where
  "set_add x xs = (if x \<in> set xs then xs else xs @ [x])"

section \<open>class Handler\<close>

text \<open>
  The attributes of a Handler. \<open>self_sidecar_files\<close> is \<open>None\<close> when the constructor ran
  with \<^verbatim>\<open>load=False\<close> and never assigned the attribute.
\<close>

record handler =
  self_file_path :: string
  self_directory :: string
  self_base_name :: string
  self_sidecar_files :: "string list option"

text \<open>\<^verbatim>\<open>Handler._find\<close>\<close>

definition Handler_find :: "'v world \<Rightarrow> handler \<Rightarrow> error + string list" where
  "Handler_find w self =
     (case os_listdir w (self_directory self) of
        Inl e \<Rightarrow> Inl e
      | Inr all_files \<Rightarrow>
          (let matching_files =
                 filter (\<lambda>file. startswith file (self_base_name self) \<and> file \<noteq> self_base_name self)
                   all_files;
               unique_identifiers =
                 foldl (\<lambda>s file. set_add (remove_all (self_base_name self @ sep) file) s)
                   [] matching_files
           in Inr unique_identifiers))"

text \<open>\<^verbatim>\<open>Handler.__init__(file_path, load)\<close>\<close>

definition Handler_init :: "'v world \<Rightarrow> string \<Rightarrow> bool \<Rightarrow> error + handler" where
  "Handler_init w path load =
     (case os_path_split path of (d, b) \<Rightarrow>
        (let self = \<lparr>self_file_path = path, self_directory = d, self_base_name = b,
                     self_sidecar_files = None\<rparr>
         in if load
            then (case Handler_find w self of
                    Inl e \<Rightarrow> Inl e
                  | Inr ids \<Rightarrow> Inr (self\<lparr>self_sidecar_files := Some ids\<rparr>))
            else Inr self))"

text \<open>\<^verbatim>\<open>Handler.get(identifier)\<close>\<close>

definition Handler_get :: "'v world \<Rightarrow> handler \<Rightarrow> string \<Rightarrow> 'v metadata option" where
  "Handler_get w self identifier =
     (let sidecar_file_path =
            os_path_join (self_directory self) (self_base_name self @ sep @ identifier)
      in universal_load w sidecar_file_path)"

text \<open>
  \<^verbatim>\<open>Handler.get_all()\<close>: the loop fills the local dict \<^verbatim>\<open>all_metadata\<close>, and the body
  ends without a \<^verbatim>\<open>return\<close> statement, so the call evaluates to Python's \<^verbatim>\<open>None\<close>
  (here \<open>None\<close>; a returned dict would be \<open>Some\<close> of it). Reading
  \<^verbatim>\<open>self.sidecar_files\<close> raises AttributeError on a Handler built with \<^verbatim>\<open>load=False\<close>.
  \<open>Handler_get_all_locals\<close> is the value of \<^verbatim>\<open>all_metadata\<close> when the loop ends.
\<close>

definition dict_set :: "'k \<Rightarrow> 'a \<Rightarrow> ('k \<times> 'a) list \<Rightarrow> ('k \<times> 'a) list" where
  "dict_set k v d =
     (if k \<in> fst ` set d then map (\<lambda>(k', v'). if k' = k then (k', v) else (k', v')) d
      else d @ [(k, v)])"

definition Handler_get_all_locals ::
  "'v world \<Rightarrow> handler \<Rightarrow> string list \<Rightarrow> (string \<times> 'v metadata option) list" where
  "Handler_get_all_locals w self ids =
     foldl (\<lambda>all_metadata identifier.
              (let metadata = Handler_get w self identifier
               in dict_set identifier metadata all_metadata)) [] ids"

definition Handler_get_all ::
  "'v world \<Rightarrow> handler \<Rightarrow> error + (string \<times> 'v metadata option) list option" where
  "Handler_get_all w self =
     (case self_sidecar_files self of
        None \<Rightarrow> Inl (AttributeError ''sidecar_files'')
      | Some ids \<Rightarrow> (let all_metadata = Handler_get_all_locals w self ids in Inr None))"

section \<open>list\_directory\<close>

text \<open>
  \<^verbatim>\<open>sidecar_files.setdefault(base_file, []).append(file)\<close> on a dict kept in insertion
  order.
\<close>

definition setdefault_append ::
  "string \<Rightarrow> string \<Rightarrow> (string \<times> string list) list \<Rightarrow> (string \<times> string list) list" where
  "setdefault_append k v d =
     (if k \<in> fst ` set d then map (\<lambda>(k', vs). if k' = k then (k', vs @ [v]) else (k', vs)) d
      else d @ [(k, [v])])"

text \<open>
  The loop of \<^verbatim>\<open>list_directory\<close> over the entries still to visit; the accumulator is
  (\<^verbatim>\<open>non_sidecar_files\<close>, \<^verbatim>\<open>sidecar_files\<close>).
\<close>

fun organize ::
  "string list \<Rightarrow> string list \<Rightarrow> string list \<times> (string \<times> string list) list
     \<Rightarrow> string list \<times> (string \<times> string list) list" where
  "organize all_files [] acc = acc"
| "organize all_files (file # rest) (non_sidecar_files, sidecar_files) =
     (if contains sep file
      then (case rpartition sep file of (base_file, m, t) \<Rightarrow>
              if base_file \<in> set all_files
              then organize all_files rest
                     (non_sidecar_files, setdefault_append base_file file sidecar_files)
              else organize all_files rest (set_add file non_sidecar_files, sidecar_files))
      else organize all_files rest (set_add file non_sidecar_files, sidecar_files))"

definition list_directory ::
  "'v world \<Rightarrow> string \<Rightarrow> error + (string list \<times> (string \<times> string list) list)" where
  "list_directory w d =
     (case os_listdir w d of
        Inl e \<Rightarrow> Inl e
      | Inr entries \<Rightarrow>
          (let all_files = remdups entries in Inr (organize all_files all_files ([], []))))"

section \<open>update\_and\_store\_sidecar\_files\<close>

text \<open>
  \<^verbatim>\<open>counter % save_interval\<close> on Python ints: ZeroDivisionError for a zero divisor;
  otherwise the remainder of floor division, which is \<open>mod\<close> on \<open>int\<close>.
\<close>

definition py_mod :: "int \<Rightarrow> int \<Rightarrow> error + int" where
  "py_mod a b = (if b = 0 then Inl ZeroDivisionError else Inr (a mod b))"

text \<open>
  The caller's \<^verbatim>\<open>function(file_path, initial_state)\<close> returns an iterator; the model takes
  the finite list of the states it yields. The inner loop
  \<^verbatim>\<open>for updated_state in updates_generator\<close> runs on the locals \<^verbatim>\<open>counter\<close> and
  \<^verbatim>\<open>updated_state\<close> (\<open>None\<close> while the name is unbound) and on the world. An exception
  comes with the world as it was when it was raised.
\<close>

fun consume_updates ::
  "int \<Rightarrow> string \<Rightarrow> 'v metadata list \<Rightarrow> int \<times> 'v metadata option \<times> 'v world
     \<Rightarrow> (error \<times> 'v world) + (int \<times> 'v metadata option \<times> 'v world)" where
  "consume_updates save_interval sidecar_file_path [] st = Inr st"
| "consume_updates save_interval sidecar_file_path (s # rest) (counter, updated_state, w) =
     (case py_mod (counter + 1) save_interval of
        Inl e \<Rightarrow> Inl (e, w)
      | Inr r \<Rightarrow>
          if r = 0
          then consume_updates save_interval sidecar_file_path rest
                 (counter + 1, Some s, universal_store sidecar_file_path s w)
          else consume_updates save_interval sidecar_file_path rest (counter + 1, Some s, w))"

text \<open>
  One pass of the outer loop, for the primary file \<open>file\<close> at position \<open>index\<close>. The local
  \<^verbatim>\<open>updated_state\<close> of the function outlives the pass, so it is threaded through.
\<close>

definition update_file ::
  "(string \<Rightarrow> 'v metadata \<Rightarrow> 'v metadata list) \<Rightarrow> int \<Rightarrow> string \<Rightarrow> string \<Rightarrow> nat \<Rightarrow> nat
     \<Rightarrow> string \<Rightarrow> 'v metadata option \<times> 'v world
     \<Rightarrow> (error \<times> 'v world) + ('v metadata option \<times> 'v world)" where
  "update_file function save_interval d identifier total_files index file st =
     (case st of (updated_state, w) \<Rightarrow>
       (let w1 = w\<lparr>stdout := stdout w @ [(index + 1, total_files, file)]\<rparr>;
            file_path = os_path_join d file
        in case Handler_init w1 file_path False of
             Inl e \<Rightarrow> Inl (e, w1)
           | Inr handler \<Rightarrow>
              (let initial_state =
                     (case Handler_get w1 handler identifier of
                        None \<Rightarrow> []
                      | Some m \<Rightarrow> if m = [] then [] else m);
                   sidecar_file_path = file_path @ sep @ identifier;
                   updates_generator = function file_path initial_state
               in case consume_updates save_interval sidecar_file_path updates_generator
                         (0, updated_state, w1) of
                    Inl e \<Rightarrow> Inl e
                  | Inr (counter, updated_state', w2) \<Rightarrow>
                     (case py_mod counter save_interval of
                        Inl e \<Rightarrow> Inl (e, w2)
                      | Inr r \<Rightarrow>
                          if r \<noteq> 0
                          then (case updated_state' of
                                  None \<Rightarrow> Inl (UnboundLocalError ''updated_state'', w2)
                                | Some s \<Rightarrow>
                                    Inr (updated_state', universal_store sidecar_file_path s w2))
                          else Inr (updated_state', w2)))))"

text \<open>\<^verbatim>\<open>for index, file in enumerate(non_sidecar_files)\<close>\<close>

fun update_loop ::
  "(string \<Rightarrow> 'v metadata \<Rightarrow> 'v metadata list) \<Rightarrow> int \<Rightarrow> string \<Rightarrow> string \<Rightarrow> nat \<Rightarrow> nat
     \<Rightarrow> string list \<Rightarrow> 'v metadata option \<times> 'v world
     \<Rightarrow> (error \<times> 'v world) + ('v metadata option \<times> 'v world)" where
  "update_loop function save_interval d identifier total_files index [] st = Inr st"
| "update_loop function save_interval d identifier total_files index (file # rest) st =
     (case update_file function save_interval d identifier total_files index file st of
        Inl e \<Rightarrow> Inl e
      | Inr st' \<Rightarrow>
          update_loop function save_interval d identifier total_files (index + 1) rest st')"

definition update_and_store_sidecar_files ::
  "string \<Rightarrow> string \<Rightarrow> (string \<Rightarrow> 'v metadata \<Rightarrow> 'v metadata list) \<Rightarrow> int \<Rightarrow> 'v world
     \<Rightarrow> (error \<times> 'v world) + 'v world" where
  "update_and_store_sidecar_files d identifier function save_interval w =
     (case list_directory w d of
        Inl e \<Rightarrow> Inl (e, w)
      | Inr (non_sidecar_files, sidecar_files) \<Rightarrow>
          (let total_files = length non_sidecar_files
           in case update_loop function save_interval d identifier total_files 0
                     non_sidecar_files (None, w) of
                Inl e \<Rightarrow> Inl e
              | Inr (updated_state, w') \<Rightarrow> Inr w'))"

text \<open>
  The value of the local \<^verbatim>\<open>initial_state\<close> in the pass over the primary file at
  \<open>file_path\<close>, when the pass starts in the world \<open>w\<close>:
  \<^verbatim>\<open>Handler(file_path, load=False).get(identifier) or {}\<close>. It is what the driver hands to
  the caller's function.
\<close>

definition initial_state :: "'v world \<Rightarrow> string \<Rightarrow> string \<Rightarrow> 'v metadata" where
  "initial_state w file_path identifier =
     (case Handler_init w file_path False of
        Inl e \<Rightarrow> []
      | Inr handler \<Rightarrow>
          (case Handler_get w handler identifier of
             None \<Rightarrow> []
           | Some m \<Rightarrow> if m = [] then [] else m))"

section \<open>process\_sidecar\_files\<close>

text \<open>
  \<^verbatim>\<open>process_sidecar_files\<close> is a function of the module, not a method, and its body
  reads \<^verbatim>\<open>self.directory\<close>. The name \<^verbatim>\<open>self\<close> is neither a parameter nor a local of the
  function, so Python looks it up among the module's globals and the builtins. The module
  binds \<^verbatim>\<open>glob\<close>, \<^verbatim>\<open>os\<close>, \<^verbatim>\<open>sys\<close>, \<^verbatim>\<open>universal_load\<close>, \<^verbatim>\<open>universal_store\<close>, \<^verbatim>\<open>Callable\<close>,
  \<^verbatim>\<open>Dict\<close>, \<^verbatim>\<open>Iterator\<close>, \<^verbatim>\<open>Handler\<close> and its four functions: \<^verbatim>\<open>self\<close> is unbound.
\<close>

definition module_self :: "handler option" where
  "module_self = None"

text \<open>
  The caller's \<^verbatim>\<open>function(file_path, sidecar_file_path)\<close> is seen through its
  invocations: the loop appends the argument pair of each call to a log. An exception
  comes with the log as it was when it was raised.
\<close>

fun process_loop ::
  "string \<Rightarrow> string \<Rightarrow> string list \<Rightarrow> (string \<times> string) list
     \<Rightarrow> (error \<times> (string \<times> string) list) + (string \<times> string) list" where
  "process_loop d identifier [] calls = Inr calls"
| "process_loop d identifier (file # rest) calls =
     (let file_path = os_path_join d file
      in case module_self of
           None \<Rightarrow> Inl (NameError ''self'', calls)
         | Some self \<Rightarrow>
             (let sidecar_file_path =
                    os_path_join (self_directory self) (file_path @ sep @ identifier)
              in process_loop d identifier rest (calls @ [(file_path, sidecar_file_path)])))"

definition process_sidecar_files ::
  "'v world \<Rightarrow> string \<Rightarrow> string
     \<Rightarrow> (error \<times> (string \<times> string) list) + (string \<times> string) list" where
  "process_sidecar_files w d identifier =
     (case list_directory w d of
        Inl e \<Rightarrow> Inl (e, [])
      | Inr (non_sidecar_files, sidecar_files) \<Rightarrow> process_loop d identifier non_sidecar_files [])"

section \<open>load\_to\_pandas\<close>

text \<open>
  The body calls \<^verbatim>\<open>load_directory(directory)\<close>. The module defines \<^verbatim>\<open>list_directory\<close> and
  imports only \<^verbatim>\<open>universal_load\<close> and \<^verbatim>\<open>universal_store\<close> from \<^verbatim>\<open>config\<close>: the name
  \<^verbatim>\<open>load_directory\<close> is unbound in the module's namespace.
\<close>

definition module_load_directory ::
  "('v world \<Rightarrow> string \<Rightarrow> error + (string list \<times> (string \<times> string list) list)) option" where
  "module_load_directory = None"

text \<open>
  \<^verbatim>\<open>Handler(directory, base_file, load=False)\<close>: the constructor takes \<^verbatim>\<open>file_path\<close> and
  \<^verbatim>\<open>load\<close>, so the second positional argument binds \<^verbatim>\<open>load\<close> and the keyword gives it a
  second value: TypeError.
\<close>

definition Handler_init_two_positional :: "string \<Rightarrow> string \<Rightarrow> bool \<Rightarrow> error + handler" where
  "Handler_init_two_positional d base_file load = Inl TypeError"

definition quoted :: "string \<Rightarrow> string" where
  "quoted s = [CHR 0x27] @ s @ [CHR 0x27]"

text \<open>\<^verbatim>\<open>if metadata\<close>: an absent result and an empty dict are falsy.\<close>

definition truthy :: "'v metadata option \<Rightarrow> bool" where
  "truthy metadata = (case metadata of None \<Rightarrow> False | Some m \<Rightarrow> m \<noteq> [])"

text \<open>
  The loop over one \<^verbatim>\<open>sidecar_file_list\<close>. It assigns the parameter \<^verbatim>\<open>identifier\<close>, so
  the state is (\<^verbatim>\<open>identifier\<close>, \<^verbatim>\<open>all_metadata\<close>, world).
\<close>

fun pandas_inner ::
  "handler \<Rightarrow> string \<Rightarrow> string list \<Rightarrow> string \<times> 'v metadata list \<times> 'v world
     \<Rightarrow> string \<times> 'v metadata list \<times> 'v world" where
  "pandas_inner sidecar_handler d [] st = st"
| "pandas_inner sidecar_handler d (sidecar_file # rest) (identifier, all_metadata, w) =
     (case rpartition sep (os_path_basename sidecar_file) of (h, m, identifier') \<Rightarrow>
        (case Handler_get w sidecar_handler identifier' of
           None \<Rightarrow>
             pandas_inner sidecar_handler d rest
               (identifier', all_metadata,
                w\<lparr>stderr := stderr w @
                    [''Warning: No '' @ identifier' @ '' metadata found for ''
                       @ quoted sidecar_file @ '' in directory '' @ quoted d @ [CHR 0x0A]]\<rparr>)
         | Some metadata \<Rightarrow>
             if truthy (Some metadata)
             then pandas_inner sidecar_handler d rest
                    (identifier', all_metadata @ [metadata], w)
             else pandas_inner sidecar_handler d rest
                    (identifier', all_metadata,
                     w\<lparr>stderr := stderr w @
                         [''Warning: No '' @ identifier' @ '' metadata found for ''
                            @ quoted sidecar_file @ '' in directory '' @ quoted d
                            @ [CHR 0x0A]]\<rparr>)))"

text \<open>\<^verbatim>\<open>for base_file, sidecar_file_list in sidecar_files.items()\<close>\<close>

fun pandas_outer ::
  "string \<Rightarrow> (string \<times> string list) list \<Rightarrow> string \<times> 'v metadata list \<times> 'v world
     \<Rightarrow> (error \<times> 'v world) + (string \<times> 'v metadata list \<times> 'v world)" where
  "pandas_outer d [] st = Inr st"
| "pandas_outer d ((base_file, sidecar_file_list) # rest) (identifier, all_metadata, w) =
     (case Handler_init_two_positional d base_file False of
        Inl e \<Rightarrow> Inl (e, w)
      | Inr sidecar_handler \<Rightarrow>
          pandas_outer d rest
            (pandas_inner sidecar_handler d sidecar_file_list (identifier, all_metadata, w)))"

text \<open>The data frame is the list of its rows; \<^verbatim>\<open>pd.DataFrame()\<close> has none.\<close>

definition load_to_pandas ::
  "'v world \<Rightarrow> string \<Rightarrow> string \<Rightarrow> (error \<times> 'v world) + ('v metadata list \<times> 'v world)" where
  "load_to_pandas w d identifier =
     (if \<not> os_path_isdir w d
      then Inr ([], w\<lparr>stderr := stderr w @
                      [''Error: The provided identifier '' @ quoted identifier
                         @ '' is not a directory.'' @ [CHR 0x0A]]\<rparr>)
      else (case module_load_directory of
              None \<Rightarrow> Inl (NameError ''load_directory'', w)
            | Some load_directory \<Rightarrow>
               (case load_directory w d of
                  Inl e \<Rightarrow> Inl (e, w)
                | Inr (non_sidecar_files, sidecar_files) \<Rightarrow>
                   (case pandas_outer d sidecar_files (identifier, [], w) of
                      Inl e \<Rightarrow> Inl e
                    | Inr (identifier', all_metadata, w') \<Rightarrow> Inr (all_metadata, w')))))"

section \<open>Example directories\<close>

text \<open>
  The directory \<^verbatim>\<open>dir\<close> holds \<^verbatim>\<open>a.txt\<close>, its sidecar \<^verbatim>\<open>a.txt---meta\<close> and the orphan
  \<^verbatim>\<open>b.txt---meta\<close>; the codec decodes \<^verbatim>\<open>dir/a.txt---meta\<close> to \<^verbatim>\<open>{'n': 1}\<close>.
\<close>

definition example_world :: "nat world" where
  "example_world =
     \<lparr>listdir = (\<lambda>d. if d = ''dir'' then Some [''a.txt'', ''a.txt---meta'', ''b.txt---meta'']
                       else None),
      disk = (\<lambda>p. if p = ''dir/a.txt---meta'' then Some [(''n'', 1)] else None),
      stored = [], stdout = [], stderr = []\<rparr>"

text \<open>
  Three caller's functions: one yields seven states when the sidecar holds \<^verbatim>\<open>{'n': 1}\<close>
  and none otherwise; one yields a first state when the sidecar is absent or empty and
  none when it already has data; one never yields.
\<close>

definition seven_when_loaded :: "string \<Rightarrow> nat metadata \<Rightarrow> nat metadata list" where
  "seven_when_loaded p init =
     (if init = [(''n'', 1)]
      then [[(''n'', 1)], [(''n'', 2)], [(''n'', 3)], [(''n'', 4)], [(''n'', 5)], [(''n'', 6)],
            [(''n'', 7)]]
      else [])"

definition resume :: "string \<Rightarrow> nat metadata \<Rightarrow> nat metadata list" where
  "resume p init = (if init = [] then [[(''n'', 1)]] else [])"

definition no_states :: "string \<Rightarrow> nat metadata \<Rightarrow> nat metadata list" where
  "no_states p init = []"

text \<open>
  A chain: \<^verbatim>\<open>a---b---c\<close> has the last-separator prefix \<^verbatim>\<open>a---b\<close>, which has the
  prefix \<^verbatim>\<open>a\<close>.
\<close>

definition chain_world :: "nat world" where
  "chain_world =
     \<lparr>listdir = (\<lambda>d. if d = ''dir'' then Some [''a'', ''a---b'', ''a---b---c''] else None),
      disk = (\<lambda>p. None), stored = [], stdout = [], stderr = []\<rparr>"

text \<open>The spec's own example of a sidecar name, and one whose identifier holds a separator.\<close>

definition photo_world :: "nat world" where
  "photo_world =
     \<lparr>listdir = (\<lambda>d. if d = ''dir'' then Some [''photo.jpg'', ''photo.jpg---tags.json'']
                       else None),
      disk = (\<lambda>p. None), stored = [], stdout = [], stderr = []\<rparr>"

definition inner_separator_world :: "nat world" where
  "inner_separator_world =
     \<lparr>listdir = (\<lambda>d. if d = ''dir'' then Some [''photo.jpg'', ''photo.jpg---x---y'']
                       else None),
      disk = (\<lambda>p. None), stored = [], stdout = [], stderr = []\<rparr>"

text \<open>
  A backup file beside \<^verbatim>\<open>a.txt\<close> and its sidecars, one of which repeats the prefix
  \<^verbatim>\<open>a.txt---\<close>.
\<close>

definition loose_world :: "nat world" where
  "loose_world =
     \<lparr>listdir = (\<lambda>d. if d = ''dir''
                       then Some [''a.txt'', ''a.txt.bak'', ''a.txt---meta'', ''a.txt---a.txt---x'']
                       else None),
      disk = (\<lambda>p. None), stored = [], stdout = [], stderr = []\<rparr>"

text \<open>Two sidecar names of \<^verbatim>\<open>a\<close> that \<^verbatim>\<open>replace\<close> reduces to the same identifier.\<close>

definition collapse_world :: "nat world" where
  "collapse_world =
     \<lparr>listdir = (\<lambda>d. if d = ''dir'' then Some [''a'', ''a---x'', ''a---a---x''] else None),
      disk = (\<lambda>p. None), stored = [], stdout = [], stderr = []\<rparr>"

text \<open>
  For the statements about the classification: \<^verbatim>\<open>sidecar_files.get(base_file, [])\<close>, the
  sidecar list recorded for a name, empty when the dict has no such key.
\<close>

definition sidecars_of :: "(string \<times> string list) list \<Rightarrow> string \<Rightarrow> string list" where
  "sidecars_of sidecar_files base_file =
     (case map_of sidecar_files base_file of None \<Rightarrow> [] | Some fs \<Rightarrow> fs)"

section \<open>The example directory, evaluated\<close>

lemma list_directory_example:
  "list_directory example_world ''dir'' =
     Inr ([''a.txt'', ''b.txt---meta''], [(''a.txt'', [''a.txt---meta''])])"
  by (simp add: list_directory_def os_listdir_def example_world_def sep_def startswith_def
      set_add_def setdefault_append_def)

lemma os_path_split_example: "os_path_split ''dir/a.txt'' = (''dir'', ''a.txt'')"
  by (simp add: os_path_split_def startswith_def rstrip_slash_def)

lemma Handler_find_example:
  "Handler_find example_world
     \<lparr>self_file_path = ''dir/a.txt'', self_directory = ''dir'', self_base_name = ''a.txt'',
      self_sidecar_files = None\<rparr> = Inr [''meta'']"
  by (simp add: Handler_find_def os_listdir_def example_world_def startswith_def sep_def
      set_add_def)

lemma universal_load_example:
  "universal_load example_world ''dir/a.txt---meta'' = Some [(''n'', 1)]"
  by (simp add: universal_load_def example_world_def)

section \<open>The codec and the Handler constructor\<close>

lemma stored_universal_store [simp]: "stored (universal_store p m w) = stored w @ [(p, m)]"
  by (simp add: universal_store_def)

lemma disk_universal_store [simp]: "disk (universal_store p m w) = (disk w)(p \<mapsto> m)"
  by (simp add: universal_store_def)

lemma stdout_universal_store [simp]: "stdout (universal_store p m w) = stdout w"
  by (simp add: universal_store_def)

text \<open>With \<^verbatim>\<open>load=False\<close> the constructor only splits the path and cannot fail.\<close>

lemma Handler_init_no_load:
  "Handler_init w p False =
     Inr \<lparr>self_file_path = p, self_directory = fst (os_path_split p),
          self_base_name = snd (os_path_split p), self_sidecar_files = None\<rparr>"
  by (simp add: Handler_init_def split: prod.split)

section \<open>The incremental persistence of update\_and\_store\_sidecar\_files\<close>

lemma consume_seven:
  "consume_updates 3 p [s1, s2, s3, s4, s5, s6, s7] (0, u, w) =
     Inr (7, Some s7, universal_store p s6 (universal_store p s3 w))"
  by (simp add: py_mod_def)

text \<open>
  The pass over a file, written with \<open>initial_state\<close>; a progress line does not change
  what the pass loads.
\<close>

lemma initial_state_stdout [simp]:
  "initial_state (w\<lparr>stdout := out\<rparr>) p identifier = initial_state w p identifier"
  by (simp add: initial_state_def Handler_init_no_load Handler_get_def universal_load_def)

lemma update_file_initial_state:
  "update_file function save_interval d identifier total_files index file (updated_state, w) =
     (case consume_updates save_interval (os_path_join d file @ sep @ identifier)
             (function (os_path_join d file) (initial_state w (os_path_join d file) identifier))
             (0, updated_state, w\<lparr>stdout := stdout w @ [(index + 1, total_files, file)]\<rparr>) of
        Inl e \<Rightarrow> Inl e
      | Inr (counter, updated_state', w2) \<Rightarrow>
          (case py_mod counter save_interval of
             Inl e \<Rightarrow> Inl (e, w2)
           | Inr r \<Rightarrow>
               if r \<noteq> 0
               then (case updated_state' of
                       None \<Rightarrow> Inl (UnboundLocalError ''updated_state'', w2)
                     | Some s \<Rightarrow>
                         Inr (updated_state',
                              universal_store (os_path_join d file @ sep @ identifier) s w2))
               else Inr (updated_state', w2)))"
  by (simp add: update_file_def initial_state_def Handler_init_no_load Handler_get_def
      universal_load_def Let_def)

text \<open>
  With a \<^verbatim>\<open>save_interval\<close> other than zero neither loop raises: the remainder is
  defined, and the flush only runs after at least one state has bound
  \<^verbatim>\<open>updated_state\<close>. The log of persistences only grows.
\<close>

lemma consume_updates_total:
  assumes "save_interval \<noteq> 0"
  shows "\<exists>u' w'. consume_updates save_interval p states (c, u, w)
                    = Inr (c + int (length states), u', w')
                \<and> (states \<noteq> [] \<longrightarrow> u' \<noteq> None)
                \<and> (\<exists>l. stored w' = stored w @ l)"
proof (induction states arbitrary: c u w)
  case Nil
  then show ?case by simp
next
  case (Cons s states)
  show ?case
  proof (cases "(c + 1) mod save_interval = 0")
    case True
    from Cons [of "c + 1" "Some s" "universal_store p s w"]
    obtain u' w' l where
      "consume_updates save_interval p states (c + 1, Some s, universal_store p s w)
         = Inr (c + 1 + int (length states), u', w')"
      and "states \<noteq> [] \<longrightarrow> u' \<noteq> None"
      and "stored w' = stored (universal_store p s w) @ l"
      by blast
    moreover have "states = [] \<longrightarrow> u' \<noteq> None"
      using calculation(1) by auto
    ultimately show ?thesis using assms True
      by (auto simp: py_mod_def add.assoc)
  next
    case False
    from Cons [of "c + 1" "Some s" w]
    obtain u' w' l where
      "consume_updates save_interval p states (c + 1, Some s, w)
         = Inr (c + 1 + int (length states), u', w')"
      and "states \<noteq> [] \<longrightarrow> u' \<noteq> None"
      and "stored w' = stored w @ l"
      by blast
    moreover have "states = [] \<longrightarrow> u' \<noteq> None"
      using calculation(1) by auto
    ultimately show ?thesis using assms False
      by (auto simp: py_mod_def add.assoc)
  qed
qed

lemma update_file_total:
  assumes "save_interval \<noteq> 0"
  shows "\<exists>u' w'. update_file function save_interval d identifier total_files index file (u, w)
                    = Inr (u', w')
                \<and> (\<exists>l. stored w' = stored w @ l)"
proof -
  let ?w1 = "w\<lparr>stdout := stdout w @ [(index + 1, total_files, file)]\<rparr>"
  let ?p = "os_path_join d file @ sep @ identifier"
  let ?states = "function (os_path_join d file) (initial_state w (os_path_join d file) identifier)"
  obtain u' w' l where c: "consume_updates save_interval ?p ?states (0, u, ?w1)
                     = Inr (0 + int (length ?states), u', w')"
    and u': "?states \<noteq> [] \<longrightarrow> u' \<noteq> None"
    and l: "stored w' = stored ?w1 @ l"
    using consume_updates_total [OF assms, of ?p ?states 0 u ?w1] by blast
  show ?thesis
  proof (cases "int (length ?states) mod save_interval = 0")
    case True
    with c l assms show ?thesis
      by (simp add: update_file_initial_state py_mod_def)
  next
    case False
    then have "?states \<noteq> []" by auto
    with u' obtain s where "u' = Some s" by auto
    with c l assms False show ?thesis
      by (simp add: update_file_initial_state py_mod_def)
  qed
qed

lemma update_loop_total:
  assumes "save_interval \<noteq> 0"
  shows "\<exists>u' w'. update_loop function save_interval d identifier total_files index files (u, w)
                    = Inr (u', w')
                \<and> (\<exists>l. stored w' = stored w @ l)"
proof (induction files arbitrary: index u w)
  case Nil
  then show ?case by simp
next
  case (Cons f files)
  obtain u1 w1 l1 where
    1: "update_file function save_interval d identifier total_files index f (u, w) = Inr (u1, w1)"
    and l1: "stored w1 = stored w @ l1"
    using update_file_total [OF assms] by blast
  obtain u2 w2 l2 where
    2: "update_loop function save_interval d identifier total_files (index + 1) files (u1, w1)
          = Inr (u2, w2)"
    and l2: "stored w2 = stored w1 @ l2"
    using Cons by blast
  from 1 2 l1 l2 show ?case by simp
qed

text \<open>
  The driver's run, cut at one primary file: the passes before it, its own pass, and the
  passes after it.
\<close>

lemma update_loop_append:
  "update_loop function save_interval d identifier total_files index (xs @ ys) st =
     (case update_loop function save_interval d identifier total_files index xs st of
        Inl e \<Rightarrow> Inl e
      | Inr st' \<Rightarrow>
          update_loop function save_interval d identifier total_files (index + length xs) ys st')"
  by (induction xs arbitrary: index st) (auto split: sum.splits)

lemma driver_split:
  assumes "list_directory w d = Inr (pre @ f # post, sidecar_files)"
    and "update_loop function save_interval d identifier (length (pre @ f # post)) 0 pre (None, w)
           = Inr st1"
  shows "update_and_store_sidecar_files d identifier function save_interval w =
     (case update_file function save_interval d identifier (length (pre @ f # post))
             (length pre) f st1 of
        Inl e \<Rightarrow> Inl e
      | Inr st2 \<Rightarrow>
          (case update_loop function save_interval d identifier (length (pre @ f # post))
                  (Suc (length pre)) post st2 of
             Inl e \<Rightarrow> Inl e
           | Inr (u, w') \<Rightarrow> Inr w'))"
  using assms(2)
  by (simp add: update_and_store_sidecar_files_def assms(1) update_loop_append Let_def
      split: sum.splits)

text \<open>The example directory: the first primary, what the pass over it loads, and its sidecar path.\<close>

lemma list_directory_example_split:
  "list_directory example_world ''dir'' =
     Inr ([] @ ''a.txt'' # [''b.txt---meta''], [(''a.txt'', [''a.txt---meta''])])"
  using list_directory_example by simp

lemma initial_state_example:
  "initial_state example_world (os_path_join ''dir'' ''a.txt'') ''meta'' = [(''n'', 1)]"
  by (simp add: initial_state_def Handler_init_def os_path_join_def startswith_def endswith_def
      os_path_split_example Handler_get_def sep_def universal_load_example)

lemma sidecar_path_example: "os_path_join ''dir'' ''a.txt'' @ sep @ ''meta'' = ''dir/a.txt---meta''"
  by (simp add: os_path_join_def startswith_def endswith_def sep_def)

lemma disk_example_world:
  "disk example_world p = (if p = ''dir/a.txt---meta'' then Some [(''n'', 1)] else None)"
  by (simp add: example_world_def)

lemma stored_example_world: "stored example_world = []"
  by (simp add: example_world_def)

lemma update_file_seven_states:
  assumes "function (os_path_join d file) (initial_state w (os_path_join d file) identifier)
             = [s1, s2, s3, s4, s5, s6, s7]"
  shows "update_file function 3 d identifier total_files index file (updated_state, w) =
     Inr (Some s7,
          universal_store (os_path_join d file @ sep @ identifier) s7
            (universal_store (os_path_join d file @ sep @ identifier) s6
               (universal_store (os_path_join d file @ sep @ identifier) s3
                  (w\<lparr>stdout := stdout w @ [(index + 1, total_files, file)]\<rparr>))))"
  by (simp add: update_file_initial_state assms consume_seven py_mod_def)

text \<open>
  Claim C1. The driver is called with \<^verbatim>\<open>save_interval=3\<close> on a directory whose primary
  files are \<open>pre\<close>, then \<open>file\<close>, then \<open>post\<close>; the passes over \<open>pre\<close> leave the world
  \<open>w1\<close>, and for \<open>file\<close> the function yields exactly seven states from the initial
  state the driver hands it. Then the pass over \<open>file\<close> persists to the sidecar path
  \<^verbatim>\<open>f"{file_path}---{identifier}"\<close> exactly three times, the third state, the sixth state
  and after exhaustion the seventh, so that the sidecar holds the seventh state; the
  driver goes on through \<open>post\<close> and returns, and its log of persistences is the log
  before the pass, these three, and what the later passes add.
\<close>

theorem update_and_store_save_interval_three:
  assumes "list_directory w d = Inr (pre @ file # post, sidecar_files)"
    and "update_loop function 3 d identifier (length (pre @ file # post)) 0 pre (None, w)
           = Inr (u1, w1)"
    and "function (os_path_join d file) (initial_state w1 (os_path_join d file) identifier)
           = [s1, s2, s3, s4, s5, s6, s7]"
  shows "\<exists>w2 u3 w' later.
      update_file function 3 d identifier (length (pre @ file # post)) (length pre) file (u1, w1)
        = Inr (Some s7, w2)
    \<and> stored w2 = stored w1 @ [(os_path_join d file @ sep @ identifier, s3),
                                (os_path_join d file @ sep @ identifier, s6),
                                (os_path_join d file @ sep @ identifier, s7)]
    \<and> disk w2 (os_path_join d file @ sep @ identifier) = Some s7
    \<and> update_loop function 3 d identifier (length (pre @ file # post)) (Suc (length pre)) post
        (Some s7, w2) = Inr (u3, w')
    \<and> update_and_store_sidecar_files d identifier function 3 w = Inr w'
    \<and> stored w' = stored w1 @ [(os_path_join d file @ sep @ identifier, s3),
                                (os_path_join d file @ sep @ identifier, s6),
                                (os_path_join d file @ sep @ identifier, s7)] @ later"
proof -
  let ?p = "os_path_join d file @ sep @ identifier"
  let ?n = "length (pre @ file # post)"
  let ?w2 = "universal_store ?p s7 (universal_store ?p s6 (universal_store ?p s3
               (w1\<lparr>stdout := stdout w1 @ [(length pre + 1, ?n, file)]\<rparr>)))"
  have pass: "update_file function 3 d identifier ?n (length pre) file (u1, w1)
                = Inr (Some s7, ?w2)"
    using assms(3) by (rule update_file_seven_states)
  have log: "stored ?w2 = stored w1 @ [(?p, s3), (?p, s6), (?p, s7)]" by simp
  have disk: "disk ?w2 ?p = Some s7" by simp
  obtain u3 w' later where
    rest: "update_loop function 3 d identifier ?n (Suc (length pre)) post (Some s7, ?w2)
             = Inr (u3, w')"
    and later: "stored w' = stored ?w2 @ later"
    using update_loop_total [where save_interval = 3 and index = "Suc (length pre)"
        and files = post and u = "Some s7" and w = ?w2]
    by (metis zero_neq_numeral)
  have driver: "update_and_store_sidecar_files d identifier function 3 w = Inr w'"
    by (simp only: driver_split [OF assms(1,2)] pass rest sum.case prod.case)
  have "stored w' = stored w1 @ [(?p, s3), (?p, s6), (?p, s7)] @ later"
    using later log by simp
  with pass log disk rest driver show ?thesis by blast
qed

theorem update_and_store_save_interval_three_witness:
  "\<exists>w2 u3 w' later.
      update_file seven_when_loaded 3 ''dir'' ''meta'' 2 0 ''a.txt'' (None, example_world)
        = Inr (Some [(''n'', 7)], w2)
    \<and> stored w2 = [(''dir/a.txt---meta'', [(''n'', 3)]), (''dir/a.txt---meta'', [(''n'', 6)]),
                   (''dir/a.txt---meta'', [(''n'', 7)])]
    \<and> disk w2 ''dir/a.txt---meta'' = Some [(''n'', 7)]
    \<and> update_loop seven_when_loaded 3 ''dir'' ''meta'' 2 1 [''b.txt---meta'']
        (Some [(''n'', 7)], w2) = Inr (u3, w')
    \<and> update_and_store_sidecar_files ''dir'' ''meta'' seven_when_loaded 3 example_world = Inr w'
    \<and> stored w' = [(''dir/a.txt---meta'', [(''n'', 3)]), (''dir/a.txt---meta'', [(''n'', 6)]),
                   (''dir/a.txt---meta'', [(''n'', 7)])] @ later"
proof -
  have pre: "update_loop seven_when_loaded 3 ''dir'' ''meta''
               (length ([] @ ''a.txt'' # [''b.txt---meta''])) 0 [] (None, example_world)
             = Inr (None, example_world)"
    by simp
  have f: "seven_when_loaded (os_path_join ''dir'' ''a.txt'')
             (initial_state example_world (os_path_join ''dir'' ''a.txt'') ''meta'')
           = [[(''n'', 1)], [(''n'', 2)], [(''n'', 3)], [(''n'', 4)], [(''n'', 5)], [(''n'', 6)],
              [(''n'', 7)]]"
    by (simp add: initial_state_example seven_when_loaded_def)
  have s: "stored example_world = []" by (simp add: example_world_def)
  show ?thesis
    using update_and_store_save_interval_three [OF list_directory_example_split pre f]
    by (simp add: s sidecar_path_example numeral_2_eq_2)
qed

text \<open>
  With \<^verbatim>\<open>save_interval=0\<close> the inner loop raises at its first state, and returns
  unchanged when there is none.
\<close>

lemma consume_updates_zero:
  "consume_updates 0 p states (c, u, w) =
     (if states = [] then Inr (c, u, w) else Inl (ZeroDivisionError, w))"
  by (cases states) (simp_all add: py_mod_def)

lemma update_file_zero:
  "update_file function 0 d identifier total_files index file (updated_state, w) =
     Inl (ZeroDivisionError, w\<lparr>stdout := stdout w @ [(index + 1, total_files, file)]\<rparr>)"
  by (simp add: update_file_def Handler_init_no_load consume_updates_zero py_mod_def Let_def)



lemma resume_example_log:
  "\<exists>w'. update_and_store_sidecar_files ''dir'' ''meta'' resume 3 example_world = Inr w'
        \<and> stored w' = [(''dir/b.txt---meta---meta'', [(''n'', 1)])]"
  by (simp add: update_and_store_sidecar_files_def list_directory_example update_file_def
      Handler_init_def os_path_split_def rstrip_slash_def Handler_get_def universal_load_def
      os_path_join_def startswith_def endswith_def sep_def py_mod_def resume_def Let_def
      disk_example_world stored_example_world)



text \<open>
  Claim C9. With \<^verbatim>\<open>save_interval=0\<close> the driver raises ZeroDivisionError on every
  directory whose classification has at least one primary file, whatever the function
  yields (also when it yields nothing), and nothing has been persisted when it does.
\<close>

theorem update_and_store_zero_interval:
  assumes "list_directory w d = Inr (non_sidecar_files, sidecar_files)"
    and "non_sidecar_files \<noteq> []"
  shows "\<exists>w'. update_and_store_sidecar_files d identifier function 0 w
              = Inl (ZeroDivisionError, w')
            \<and> stored w' = stored w \<and> disk w' = disk w"
proof -
  obtain f rest where nf: "non_sidecar_files = f # rest"
    using assms(2) by (cases non_sidecar_files) auto
  show ?thesis
    by (simp add: update_and_store_sidecar_files_def assms(1) nf update_file_zero)
qed

theorem update_and_store_zero_interval_witness:
  "\<exists>w'. update_and_store_sidecar_files ''dir'' ''meta'' no_states 0 example_world
              = Inl (ZeroDivisionError, w')
            \<and> stored w' = [] \<and> disk w' = disk example_world"
  using update_and_store_zero_interval [OF list_directory_example, of "''meta''" no_states]
  by (simp add: example_world_def)

section \<open>Handler.get\_all\<close>

text \<open>On every Handler that has a discovery result, \<^verbatim>\<open>get_all\<close> evaluates to \<^verbatim>\<open>None\<close>.\<close>

lemma Handler_get_all_none:
  "self_sidecar_files self = Some ids \<Longrightarrow> Handler_get_all w self = Inr None"
  by (simp add: Handler_get_all_def)

text \<open>
  Claim C2, on the Handler of \<^verbatim>\<open>dir/a.txt\<close> built with discovery: discovery finds the
  identifier \<^verbatim>\<open>meta\<close>, the loop of \<^verbatim>\<open>get_all\<close> builds \<^verbatim>\<open>{'meta': {'n': 1}}\<close>, and the
  call evaluates to \<^verbatim>\<open>None\<close>, not to that mapping.
\<close>

theorem get_all_returns_none:
  "Handler_init example_world ''dir/a.txt'' True =
     Inr \<lparr>self_file_path = ''dir/a.txt'', self_directory = ''dir'', self_base_name = ''a.txt'',
          self_sidecar_files = Some [''meta'']\<rparr>
   \<and> Handler_get_all example_world
        \<lparr>self_file_path = ''dir/a.txt'', self_directory = ''dir'', self_base_name = ''a.txt'',
         self_sidecar_files = Some [''meta'']\<rparr> = Inr None
   \<and> Handler_get_all_locals example_world
        \<lparr>self_file_path = ''dir/a.txt'', self_directory = ''dir'', self_base_name = ''a.txt'',
         self_sidecar_files = Some [''meta'']\<rparr> [''meta''] = [(''meta'', Some [(''n'', 1)])]"
  by (simp add: Handler_init_def os_path_split_example Handler_find_example Handler_get_all_def
      Handler_get_all_locals_def Handler_get_def universal_load_example os_path_join_def
      startswith_def endswith_def sep_def dict_set_def Let_def)

section \<open>process\_sidecar\_files and load\_to\_pandas\<close>

text \<open>
  The first pass of the loop of \<^verbatim>\<open>process_sidecar_files\<close> raises, whatever the directory
  and the identifier, so the driver returns normally only when the classification has no
  primary file.
\<close>

lemma process_loop_name_error:
  "process_loop d identifier (f # rest) calls = Inl (NameError ''self'', calls)"
  by (simp add: module_self_def)

lemma process_sidecar_files_raises:
  assumes "list_directory w d = Inr (non_sidecar_files, sidecar_files)"
    and "non_sidecar_files \<noteq> []"
  shows "process_sidecar_files w d identifier = Inl (NameError ''self'', [])"
proof -
  obtain f rest where "non_sidecar_files = f # rest"
    using assms(2) by (cases non_sidecar_files) auto
  then show ?thesis
    by (simp add: process_sidecar_files_def assms(1) module_self_def)
qed

text \<open>On every path that is a directory, \<^verbatim>\<open>load_to_pandas\<close> raises before it reads anything.\<close>

lemma load_to_pandas_raises:
  "os_path_isdir w d \<Longrightarrow> load_to_pandas w d identifier = Inl (NameError ''load_directory'', w)"
  by (simp add: load_to_pandas_def module_load_directory_def)

text \<open>
  Claim C3, on the example directory: the classification has the primary files
  \<^verbatim>\<open>a.txt\<close> and \<^verbatim>\<open>b.txt---meta\<close>, and the driver raises NameError for \<^verbatim>\<open>self\<close> in its
  first pass, before any invocation of the caller's function.
\<close>

theorem process_sidecar_files_name_error:
  "process_sidecar_files example_world ''dir'' ''meta'' = Inl (NameError ''self'', [])"
  by (simp add: process_sidecar_files_def list_directory_example module_self_def)

text \<open>
  Claim C8, on the example directory, which exists and holds the sidecar
  \<^verbatim>\<open>a.txt---meta\<close>: the export raises NameError for \<^verbatim>\<open>load_directory\<close>; it produces no
  row and writes no warning.
\<close>

theorem load_to_pandas_name_error:
  "load_to_pandas example_world ''dir'' ''meta''
     = Inl (NameError ''load_directory'', example_world)"
  by (simp add: load_to_pandas_def os_path_isdir_def module_load_directory_def
      example_world_def)

section \<open>The naming scheme and its split\<close>

lemma contains_startswith: "startswith s sp \<Longrightarrow> contains sp s"
  by (cases s) (auto simp: startswith_def)

lemma contains_append: "contains sp (xs @ sp @ ys)"
  by (induction xs) (auto simp: contains_startswith startswith_def)

lemma rpartition_sidecar_name:
  assumes "sp \<noteq> []" and "\<not> contains sp (tl (sp @ I))"
  shows "rpartition sp (B @ sp @ I) = (B, sp, I)"
proof (induction B)
  case Nil
  from assms(1) obtain c cs where sp: "sp = c # cs" by (cases sp) auto
  with assms(2) have "\<not> contains (c # cs) (cs @ I)" by simp
  then show ?case by (simp add: sp startswith_def)
next
  case (Cons b B)
  then show ?case by (simp add: contains_append)
qed

lemma contains_sep_dashes:
  "contains sep (''--'' @ I) \<longleftrightarrow> startswith I ''-'' \<or> contains sep I"
  by (cases I) (auto simp: sep_def startswith_def)

lemma rpartition_sep_name:
  assumes "\<not> startswith I ''-''" and "\<not> contains sep I"
  shows "rpartition sep (B @ sep @ I) = (B, sep, I)"
proof -
  have "tl (sep @ I) = ''--'' @ I" by (simp add: sep_def)
  moreover have "sep \<noteq> []" by (simp add: sep_def)
  ultimately show ?thesis
    using assms contains_sep_dashes [of I] by (intro rpartition_sidecar_name) auto
qed

section \<open>The classification computed by list\_directory\<close>

lemma set_set_add [simp]: "set (set_add x xs) = insert x (set xs)"
  by (auto simp: set_add_def)

lemma distinct_set_add [simp]: "distinct (set_add x xs) = distinct xs"
  by (auto simp: set_add_def)

lemma map_fst_setdefault_append:
  "map fst (setdefault_append k v d) = (if k \<in> fst ` set d then map fst d else map fst d @ [k])"
  by (auto simp: setdefault_append_def)

lemma distinct_keys_setdefault_append:
  "distinct (map fst d) \<Longrightarrow> distinct (map fst (setdefault_append k v d))"
  by (auto simp: map_fst_setdefault_append)

lemma map_of_bump:
  "map_of (map (\<lambda>(k', vs). if k' = k then (k', vs @ [v]) else (k', vs)) d) k' =
     (if k' = k then map_option (\<lambda>vs. vs @ [v]) (map_of d k) else map_of d k')"
  by (induction d) auto

lemma sidecars_of_setdefault_append:
  "sidecars_of (setdefault_append k v d) k' =
     (if k' = k then sidecars_of d k @ [v] else sidecars_of d k')"
proof (cases "k \<in> fst ` set d")
  case True
  then obtain vs where "map_of d k = Some vs"
    by (metis domD dom_map_of_conv_image_fst)
  with True show ?thesis
    by (simp add: sidecars_of_def setdefault_append_def map_of_bump)
next
  case False
  then have "map_of d k = None" by (simp add: map_of_eq_None_iff)
  with False show ?thesis
    by (auto simp: sidecars_of_def setdefault_append_def map_add_def split: option.splits)
qed

lemma organize_primaries:
  "set (fst (organize all_files rest (ns, sc))) =
     set ns \<union> {f \<in> set rest. \<not> (contains sep f \<and> fst (rpartition sep f) \<in> set all_files)}"
  by (induction rest arbitrary: ns sc) (auto split: prod.splits)

lemma organize_primaries_distinct:
  "distinct ns \<Longrightarrow> distinct (fst (organize all_files rest (ns, sc)))"
  by (induction rest arbitrary: ns sc) (auto split: prod.splits)

lemma organize_keys_distinct:
  "distinct (map fst sc) \<Longrightarrow> distinct (map fst (snd (organize all_files rest (ns, sc))))"
  by (induction rest arbitrary: ns sc)
     (auto split: prod.splits simp: distinct_keys_setdefault_append)

lemma organize_sidecars:
  "sidecars_of (snd (organize all_files rest (ns, sc))) b =
     sidecars_of sc b @
     filter (\<lambda>f. contains sep f \<and> fst (rpartition sep f) \<in> set all_files
                  \<and> fst (rpartition sep f) = b) rest"
  by (induction rest arbitrary: ns sc)
     (auto split: prod.splits simp: sidecars_of_setdefault_append)

lemma list_directory_organize:
  "listdir w d = Some entries \<Longrightarrow>
     list_directory w d = Inr (organize (remdups entries) (remdups entries) ([], []))"
  by (simp add: list_directory_def os_listdir_def Let_def)

lemma sidecars_of_Nil [simp]: "sidecars_of [] b = []"
  by (simp add: sidecars_of_def)

lemma mem_sidecars_of:
  "file \<in> set (sidecars_of sc b) \<longleftrightarrow> (\<exists>fs. map_of sc b = Some fs \<and> file \<in> set fs)"
  by (cases "map_of sc b") (simp_all add: sidecars_of_def)

lemma list_directory_primaries:
  assumes "list_directory w d = Inr (ns, sc)" and "listdir w d = Some entries"
  shows "distinct ns"
    and "file \<in> set ns \<longleftrightarrow>
           file \<in> set entries \<and> \<not> (contains sep file \<and> fst (rpartition sep file) \<in> set entries)"
proof -
  have eq: "ns = fst (organize (remdups entries) (remdups entries) ([], []))"
    using assms by (simp add: list_directory_organize)
  show "distinct ns" unfolding eq by (rule organize_primaries_distinct) simp
  show "file \<in> set ns \<longleftrightarrow>
           file \<in> set entries \<and> \<not> (contains sep file \<and> fst (rpartition sep file) \<in> set entries)"
    unfolding eq by (auto simp: organize_primaries)
qed

lemma list_directory_sidecars:
  assumes "list_directory w d = Inr (ns, sc)" and "listdir w d = Some entries"
  shows "distinct (map fst sc)"
    and "(b, fs) \<in> set sc \<Longrightarrow> distinct fs"
    and "(\<exists>fs. (b, fs) \<in> set sc \<and> file \<in> set fs) \<longleftrightarrow>
           file \<in> set entries \<and> contains sep file \<and> b = fst (rpartition sep file)
           \<and> b \<in> set entries"
proof -
  have eq: "sc = snd (organize (remdups entries) (remdups entries) ([], []))"
    using assms by (simp add: list_directory_organize)
  show keys: "distinct (map fst sc)" unfolding eq by (rule organize_keys_distinct) simp
  have so: "sidecars_of sc b' =
      filter (\<lambda>f. contains sep f \<and> fst (rpartition sep f) \<in> set entries
                    \<and> fst (rpartition sep f) = b') (remdups entries)" for b'
    unfolding eq by (simp add: organize_sidecars)
  show "distinct fs" if "(b, fs) \<in> set sc"
  proof -
    from that keys have "sidecars_of sc b = fs" by (simp add: sidecars_of_def)
    then have "fs = filter (\<lambda>f. contains sep f \<and> fst (rpartition sep f) \<in> set entries
                    \<and> fst (rpartition sep f) = b) (remdups entries)"
      using so [of b] by simp
    then show ?thesis by simp
  qed
  have "(\<exists>fs. (b, fs) \<in> set sc \<and> file \<in> set fs) \<longleftrightarrow> file \<in> set (sidecars_of sc b)"
    using keys by (simp add: mem_sidecars_of)
  also have "\<dots> \<longleftrightarrow> file \<in> set entries \<and> contains sep file \<and> b = fst (rpartition sep file)
           \<and> b \<in> set entries"
    unfolding so by auto
  finally show "(\<exists>fs. (b, fs) \<in> set sc \<and> file \<in> set fs) \<longleftrightarrow>
           file \<in> set entries \<and> contains sep file \<and> b = fst (rpartition sep file)
           \<and> b \<in> set entries" .
qed

lemma distinct_singleton_list:
  assumes "distinct ys" and "set ys = {x}"
  shows "ys = [x]"
proof (cases ys)
  case Nil
  with assms(2) show ?thesis by simp
next
  case (Cons y ys')
  with assms have "y = x" and "set ys' \<subseteq> {x}" and "y \<notin> set ys'" by auto
  then have "ys' = []" by (cases ys') auto
  with Cons \<open>y = x\<close> show ?thesis by simp
qed

lemma list_directory_sidecars_of:
  assumes "list_directory w d = Inr (ns, sc)" and "listdir w d = Some entries"
  shows "sidecars_of sc b =
      filter (\<lambda>f. contains sep f \<and> fst (rpartition sep f) \<in> set entries
                    \<and> fst (rpartition sep f) = b) (remdups entries)"
proof -
  have eq: "sc = snd (organize (remdups entries) (remdups entries) ([], []))"
    using assms by (simp add: list_directory_organize)
  show ?thesis unfolding eq by (simp add: organize_sidecars)
qed

lemma list_directory_partition_example:
  assumes "list_directory w d = Inr (ns, sc)" and "listdir w d = Some entries"
    and se: "set entries = {''a.txt'', ''a.txt---meta'', ''b.txt---meta''}"
  shows "set ns = {''a.txt'', ''b.txt---meta''}"
    and "map_of sc ''a.txt'' = Some [''a.txt---meta'']"
proof -
  have r1: "fst (rpartition sep ''a.txt---meta'') = ''a.txt''"
    and r2: "fst (rpartition sep ''b.txt---meta'') = ''b.txt''"
    and c0: "\<not> contains sep ''a.txt''"
    and c1: "contains sep ''a.txt---meta''"
    and c2: "contains sep ''b.txt---meta''"
    by (simp_all add: sep_def startswith_def)
  have b: "''b.txt'' \<notin> set entries" by (simp add: se)
  have a: "''a.txt'' \<in> set entries" by (simp add: se)
  have p: "f \<in> set ns \<longleftrightarrow>
      f \<in> set entries \<and> \<not> (contains sep f \<and> fst (rpartition sep f) \<in> set entries)"
    for f by (rule list_directory_primaries(2) [OF assms(1,2)])
  have m0: "''a.txt'' \<in> set ns" using p [of "''a.txt''"] c0 a by simp
  have m1: "''a.txt---meta'' \<notin> set ns" using p [of "''a.txt---meta''"] c1 r1 a by simp
  have m2: "''b.txt---meta'' \<in> set ns" using p [of "''b.txt---meta''"] c2 r2 b se by simp
  have "set ns \<subseteq> set entries" using p by blast
  then show "set ns = {''a.txt'', ''b.txt---meta''}" using m0 m1 m2 unfolding se by blast
  let ?fs = "sidecars_of sc ''a.txt''"
  have fs: "?fs = filter (\<lambda>f. contains sep f \<and> fst (rpartition sep f) \<in> set entries
                    \<and> fst (rpartition sep f) = ''a.txt'') (remdups entries)"
    by (rule list_directory_sidecars_of [OF assms(1,2)])
  have "distinct ?fs" unfolding fs by simp
  moreover have "set ?fs = {''a.txt---meta''}"
  proof -
    have q: "f \<in> set ?fs \<longleftrightarrow> f \<in> set entries \<and> contains sep f
        \<and> fst (rpartition sep f) \<in> set entries \<and> fst (rpartition sep f) = ''a.txt''"
      for f unfolding fs by simp
    have n0: "''a.txt'' \<notin> set ?fs" using q [of "''a.txt''"] c0 by simp
    have n1: "''a.txt---meta'' \<in> set ?fs" using q [of "''a.txt---meta''"] c1 r1 a se by simp
    have n2: "''b.txt---meta'' \<notin> set ?fs" using q [of "''b.txt---meta''"] r2 b by simp
    have "set ?fs \<subseteq> set entries" using q by blast
    then show ?thesis using n0 n1 n2 unfolding se by blast
  qed
  ultimately have "?fs = [''a.txt---meta'']" by (rule distinct_singleton_list)
  then show "map_of sc ''a.txt'' = Some [''a.txt---meta'']"
    by (simp add: sidecars_of_def split: option.splits)
qed

text \<open>
  Claim C5, as stated, on the chain \<^verbatim>\<open>a\<close>, \<^verbatim>\<open>a---b\<close>, \<^verbatim>\<open>a---b---c\<close>: the entry
  \<^verbatim>\<open>a---b---c\<close> is recorded as a sidecar of \<^verbatim>\<open>a---b\<close>, and \<^verbatim>\<open>a---b\<close> is not classified
  as a primary file (it is a sidecar of \<^verbatim>\<open>a\<close>).
\<close>

theorem list_directory_sidecar_of_sidecar:
  "list_directory chain_world ''dir'' =
     Inr ([''a''], [(''a'', [''a---b'']), (''a---b'', [''a---b---c''])])"
  by (simp add: list_directory_def os_listdir_def chain_world_def sep_def startswith_def
      set_add_def setdefault_append_def)

text \<open>
  Claim C5, amended. For every directory listing, \<^verbatim>\<open>list_directory\<close> classifies every
  entry exactly once, either as a primary or as a sidecar under exactly one key: an entry
  containing the separator is recorded as a sidecar under its last-separator prefix when
  that prefix is itself an entry of the listing (whether that entry is classified as a
  primary or as a sidecar), and is a primary otherwise; entries without the separator are
  primary. No name is recorded twice, and only entries are recorded.
\<close>

theorem list_directory_classification:
  assumes "list_directory w d = Inr (non_sidecar_files, sidecar_files)"
    and "listdir w d = Some entries"
  shows "distinct non_sidecar_files \<and> distinct (map fst sidecar_files)
    \<and> (\<forall>base_file fs. (base_file, fs) \<in> set sidecar_files \<longrightarrow> distinct fs)
    \<and> (\<forall>file. file \<in> set non_sidecar_files \<longleftrightarrow>
          file \<in> set entries
          \<and> \<not> (contains sep file \<and> fst (rpartition sep file) \<in> set entries))
    \<and> (\<forall>base_file file.
          (\<exists>fs. (base_file, fs) \<in> set sidecar_files \<and> file \<in> set fs) \<longleftrightarrow>
          file \<in> set entries \<and> contains sep file
          \<and> base_file = fst (rpartition sep file) \<and> base_file \<in> set entries)
    \<and> (set entries = {''a.txt'', ''a.txt---meta'', ''b.txt---meta''} \<longrightarrow>
          set non_sidecar_files = {''a.txt'', ''b.txt---meta''}
          \<and> map_of sidecar_files ''a.txt'' = Some [''a.txt---meta''])"
proof -
  note prim = list_directory_primaries [OF assms]
  note side = list_directory_sidecars [OF assms]
  note ex = list_directory_partition_example [OF assms]
  have 1: "distinct non_sidecar_files \<and> distinct (map fst sidecar_files)"
    using prim(1) side(1) by simp
  have 2: "\<forall>base_file fs. (base_file, fs) \<in> set sidecar_files \<longrightarrow> distinct fs"
    using side(2) by blast
  have 3: "\<forall>file. file \<in> set non_sidecar_files \<longleftrightarrow>
          file \<in> set entries
          \<and> \<not> (contains sep file \<and> fst (rpartition sep file) \<in> set entries)"
    using prim(2) by blast
  have 4: "\<forall>base_file file.
          (\<exists>fs. (base_file, fs) \<in> set sidecar_files \<and> file \<in> set fs) \<longleftrightarrow>
          file \<in> set entries \<and> contains sep file
          \<and> base_file = fst (rpartition sep file) \<and> base_file \<in> set entries"
    using side(3) by blast
  have 5: "set entries = {''a.txt'', ''a.txt---meta'', ''b.txt---meta''} \<longrightarrow>
          set non_sidecar_files = {''a.txt'', ''b.txt---meta''}
          \<and> map_of sidecar_files ''a.txt'' = Some [''a.txt---meta'']"
    using ex by blast
  from 1 2 3 4 5 show ?thesis by (intro conjI) simp_all
qed

theorem list_directory_classification_witness:
  "list_directory example_world ''dir'' =
     Inr ([''a.txt'', ''b.txt---meta''], [(''a.txt'', [''a.txt---meta''])])
   \<and> set [''a.txt'', ''b.txt---meta''] = {''a.txt'', ''b.txt---meta''}
   \<and> map_of [(''a.txt'', [''a.txt---meta''])] ''a.txt'' = Some [''a.txt---meta'']
   \<and> (''a.txt---meta'' \<notin> set [''a.txt'', ''b.txt---meta''])
   \<and> (\<exists>fs. (''a.txt'', fs) \<in> set [(''a.txt'', [''a.txt---meta''])]
           \<and> ''a.txt---meta'' \<in> set fs)"
proof -
  have l: "listdir example_world ''dir'' = Some [''a.txt'', ''a.txt---meta'', ''b.txt---meta'']"
    by (simp add: example_world_def)
  show ?thesis
    using list_directory_classification [OF list_directory_example l] list_directory_example
    by simp
qed

text \<open>
  Claim C4, as stated, at the base name \<^verbatim>\<open>photo.jpg\<close> and the identifier \<^verbatim>\<open>x---y\<close>: the
  split of \<^verbatim>\<open>photo.jpg---x---y\<close> is taken at the last separator and gives
  \<^verbatim>\<open>photo.jpg---x\<close> and \<^verbatim>\<open>y\<close>; beside \<^verbatim>\<open>photo.jpg\<close> the name is classified as a primary.
\<close>

theorem sidecar_name_split_inner_separator:
  "\<not> contains sep ''photo.jpg''
   \<and> rpartition sep (''photo.jpg'' @ sep @ ''x---y'') = (''photo.jpg---x'', sep, ''y'')
   \<and> list_directory inner_separator_world ''dir''
       = Inr ([''photo.jpg'', ''photo.jpg---x---y''], [])"
  by (simp add: list_directory_def os_listdir_def inner_separator_world_def sep_def
      startswith_def set_add_def)

text \<open>
  Claim C4, amended. For every base name B not containing the separator and every
  identifier I that neither starts with \<^verbatim>\<open>-\<close> nor contains the separator, the split of
  the name \<^verbatim>\<open>B---I\<close> at its last separator is (B, I), and in a directory listing that
  contains B and \<^verbatim>\<open>B---I\<close> the classifier records \<^verbatim>\<open>B---I\<close> as a sidecar of B and not as a
  primary.
\<close>

theorem sidecar_name_split:
  assumes "\<not> contains sep B" and "\<not> startswith I ''-''" and "\<not> contains sep I"
    and "listdir w d = Some entries" and "B \<in> set entries" and "B @ sep @ I \<in> set entries"
  shows "rpartition sep (B @ sep @ I) = (B, sep, I)
    \<and> (\<exists>non_sidecar_files sidecar_files fs.
          list_directory w d = Inr (non_sidecar_files, sidecar_files)
          \<and> (B, fs) \<in> set sidecar_files \<and> B @ sep @ I \<in> set fs
          \<and> B @ sep @ I \<notin> set non_sidecar_files)"
proof -
  have rp: "rpartition sep (B @ sep @ I) = (B, sep, I)"
    using assms(2,3) by (rule rpartition_sep_name)
  obtain ns sc where ld: "list_directory w d = Inr (ns, sc)"
    using assms(4) by (simp add: list_directory_organize) (metis surj_pair)
  have c: "contains sep (B @ sep @ I)" by (rule contains_append)
  have "\<exists>fs. (B, fs) \<in> set sc \<and> B @ sep @ I \<in> set fs"
    using list_directory_sidecars(3) [OF ld assms(4), of B "B @ sep @ I"] assms(5,6) rp c
    by simp
  moreover have "B @ sep @ I \<notin> set ns"
    using list_directory_primaries(2) [OF ld assms(4), of "B @ sep @ I"] assms(5) rp c
    by simp
  ultimately show ?thesis using rp ld by blast
qed

theorem sidecar_name_split_witness:
  "rpartition sep (''photo.jpg'' @ sep @ ''tags.json'') = (''photo.jpg'', sep, ''tags.json'')
   \<and> (\<exists>non_sidecar_files sidecar_files fs.
          list_directory photo_world ''dir'' = Inr (non_sidecar_files, sidecar_files)
          \<and> (''photo.jpg'', fs) \<in> set sidecar_files
          \<and> ''photo.jpg'' @ sep @ ''tags.json'' \<in> set fs
          \<and> ''photo.jpg'' @ sep @ ''tags.json'' \<notin> set non_sidecar_files)"
proof -
  have b: "\<not> contains sep ''photo.jpg''" by (simp add: sep_def startswith_def)
  have i1: "\<not> startswith ''tags.json'' ''-''" by (simp add: startswith_def)
  have i2: "\<not> contains sep ''tags.json''" by (simp add: sep_def startswith_def)
  have l: "listdir photo_world ''dir'' = Some [''photo.jpg'', ''photo.jpg---tags.json'']"
    by (simp add: photo_world_def)
  have m1: "''photo.jpg'' \<in> set [''photo.jpg'', ''photo.jpg---tags.json'']" by simp
  have m2: "''photo.jpg'' @ sep @ ''tags.json'' \<in> set [''photo.jpg'', ''photo.jpg---tags.json'']"
    by (simp add: sep_def)
  show ?thesis by (rule sidecar_name_split [OF b i1 i2 l m1 m2])
qed

section \<open>Handler discovery\<close>

lemma foldl_set_add_distinct:
  "distinct acc \<Longrightarrow> distinct (foldl (\<lambda>s x. set_add (g x) s) acc xs)"
  by (induction xs arbitrary: acc) auto

lemma foldl_set_add_set:
  "set (foldl (\<lambda>s x. set_add (g x) s) acc xs) = set acc \<union> g ` set xs"
  by (induction xs arbitrary: acc) auto

text \<open>
  Claim C10. Whenever the directory of the Handler can be listed, discovery returns a
  list without repetitions; its elements are the results of removing every occurrence
  of \<^verbatim>\<open>f"{base_name}---"\<close> from the matching entries, so two entries that reduce to the
  same identifier give one element.
\<close>

theorem Handler_find_distinct:
  assumes "listdir w (self_directory self) = Some all_files"
  shows "\<exists>ids. Handler_find w self = Inr ids \<and> distinct ids
    \<and> set ids = remove_all (self_base_name self @ sep) `
        set (filter (\<lambda>file. startswith file (self_base_name self) \<and> file \<noteq> self_base_name self)
               all_files)"
  using assms
  by (simp add: Handler_find_def os_listdir_def Let_def foldl_set_add_distinct foldl_set_add_set)

theorem Handler_find_distinct_witness:
  "\<exists>ids. Handler_find collapse_world
            \<lparr>self_file_path = ''dir/a'', self_directory = ''dir'', self_base_name = ''a'',
             self_sidecar_files = None\<rparr> = Inr ids
         \<and> distinct ids \<and> set ids = {''x''}"
proof -
  have l: "listdir collapse_world
             (self_directory \<lparr>self_file_path = ''dir/a'', self_directory = ''dir'',
                               self_base_name = ''a'', self_sidecar_files = None\<rparr>)
           = Some [''a'', ''a---x'', ''a---a---x'']"
    by (simp add: collapse_world_def)
  show ?thesis
    using Handler_find_distinct [OF l] by (simp add: startswith_def sep_def)
qed

text \<open>
  Claim C6, on the directory with \<^verbatim>\<open>a.txt\<close>, \<^verbatim>\<open>a.txt.bak\<close>, \<^verbatim>\<open>a.txt---meta\<close> and
  \<^verbatim>\<open>a.txt---a.txt---x\<close>: discovery for \<^verbatim>\<open>a.txt\<close> selects \<^verbatim>\<open>a.txt.bak\<close>, which does not
  start with \<^verbatim>\<open>a.txt---\<close>, and yields its whole name as an identifier; for
  \<^verbatim>\<open>a.txt---a.txt---x\<close> it yields \<^verbatim>\<open>x\<close>, not the rest \<^verbatim>\<open>a.txt---x\<close> after the prefix.
\<close>

theorem Handler_find_loose_prefix:
  "Handler_find loose_world
     \<lparr>self_file_path = ''dir/a.txt'', self_directory = ''dir'', self_base_name = ''a.txt'',
      self_sidecar_files = None\<rparr> = Inr [''a.txt.bak'', ''meta'', ''x'']
   \<and> \<not> startswith ''a.txt.bak'' (''a.txt'' @ sep)
   \<and> drop (length (''a.txt'' @ sep)) ''a.txt---a.txt---x'' = ''a.txt---x''"
  by (simp add: Handler_find_def os_listdir_def loose_world_def startswith_def sep_def
      set_add_def)

end
